theory Spec2Isabelle
  imports Main "HOL-Library.AList" "HOL-Library.Char_ord" "HOL-Library.List_Lexorder"
begin

section \<open>The OKCoin client (okcoin.js)\<close>

subsection \<open>JavaScript values\<close>

text \<open>
  The values the client handles: the arguments a caller passes, the settings object, the
  parsed JSON payload and the two arguments of the completion callback.
  \<^item> A number is an integer of magnitude below \<open>10^21\<close> (error codes, order ids, page
    numbers): for these \<open>ToString\<close> is the plain decimal numeral. Fractions, \<open>NaN\<close> and the
    infinities are outside the embedding.
  \<^item> A string is a list of characters compared character by character; for the ASCII
    keys of this API that is the order of \<open>Array.prototype.sort\<close>.
  \<^item> An object is its own enumerable properties in insertion order: an association list
    whose keys are distinct (\<open>wf_object\<close>). The members an object literal inherits from
    \<open>Object.prototype\<close> matter where the source reads a property under a key it does not
    choose, \<open>error_codes[error_code]\<close>; they are listed in \<open>object_prototype\<close>.
  \<^item> \<open>JError m\<close> is the object built by \<open>new Error(m)\<close>.
  \<^item> \<open>JFunction n\<close> is the built-in function named \<open>n\<close>. JSON text has no functions:
    a parsed payload never holds one (\<open>json_value\<close>).
\<close>

datatype jsval =
    JUndefined
  | JNull
  | JBool bool
  | JNum int
  | JStr string
  | JArr "jsval list"
  | JObj "(string \<times> jsval) list"
  | JError string
  | JFunction string

type_synonym jsobject = "(string \<times> jsval) list"

definition wf_object :: "jsobject \<Rightarrow> bool" where
  "wf_object obj = distinct (map fst obj)"

text \<open>ToBoolean: \<open>if (v)\<close>, \<open>v || w\<close>.\<close>

fun truthy :: "jsval \<Rightarrow> bool" where
  "truthy JUndefined = False"
| "truthy JNull = False"
| "truthy (JBool b) = b"
| "truthy (JNum n) = (n \<noteq> 0)"
| "truthy (JStr s) = (s \<noteq> [])"
| "truthy (JArr xs) = True"
| "truthy (JObj ps) = True"
| "truthy (JError m) = True"
| "truthy (JFunction n) = True"

text \<open>The decimal numeral of a number.\<close>

definition digit_char :: "nat \<Rightarrow> char" where
  "digit_char d = ''0123456789'' ! d"

function digits :: "nat \<Rightarrow> string" where
  "digits n = (if n < 10 then [digit_char n] else digits (n div 10) @ [digit_char (n mod 10)])"
  by pat_completeness auto
termination
  by (relation "measure id") auto

definition number_to_string :: "int \<Rightarrow> string" where
  "number_to_string n = (if n < 0 then CHR ''-'' # digits (nat (- n)) else digits (nat n))"

text \<open>Joining strings with a separator, as \<open>Array.prototype.join\<close> does once every
  element is a string.\<close>

fun join_strings :: "string \<Rightarrow> string list \<Rightarrow> string" where
  "join_strings sep [] = []"
| "join_strings sep [s] = s"
| "join_strings sep (s # t # ss) = s @ sep @ join_strings sep (t # ss)"

text \<open>ToString: what string concatenation (\<open>'' + v\<close>) makes of a value. An array is its
  elements joined by a comma, \<open>null\<close> and \<open>undefined\<close> elements giving the empty string.
  This is the conversion of the values a caller passes as arguments and settings, where an
  object is taken to have no \<open>toString\<close> of its own; for a parsed payload, which can hold
  such an object, the classifier uses \<open>ToPropertyKey\<close> below, which can throw.\<close>

fun ToString :: "jsval \<Rightarrow> string" where
  "ToString JUndefined = ''undefined''"
| "ToString JNull = ''null''"
| "ToString (JBool b) = (if b then ''true'' else ''false'')"
| "ToString (JNum n) = number_to_string n"
| "ToString (JStr s) = s"
| "ToString (JArr xs) =
     join_strings '',''
       (map (\<lambda>x. if x = JNull \<or> x = JUndefined then [] else ToString x) xs)"
| "ToString (JObj ps) = ''[object Object]''"
| "ToString (JError m) = (if m = [] then ''Error'' else ''Error: '' @ m)"
| "ToString (JFunction n) = ''function '' @ n @ ''() { [native code] }''"

text \<open>\<open>xs.join(sep)\<close> on an array.\<close>

definition array_join :: "jsval list \<Rightarrow> string \<Rightarrow> string" where
  "array_join xs sep =
     join_strings sep (map (\<lambda>x. if x = JNull \<or> x = JUndefined then [] else ToString x) xs)"

subsection \<open>Objects\<close>

text \<open>\<open>obj[k]\<close>: the own property, \<open>undefined\<close> when there is none.\<close>

definition js_get :: "jsobject \<Rightarrow> string \<Rightarrow> jsval" where
  "js_get obj k = (case map_of obj k of None \<Rightarrow> JUndefined | Some v \<Rightarrow> v)"

text \<open>\<open>obj[k] = v\<close>: an existing property keeps its place, a new one goes last.\<close>

definition js_set :: "jsobject \<Rightarrow> string \<Rightarrow> jsval \<Rightarrow> jsobject" where
  "js_set obj k v = AList.update k v obj"

text \<open>The keys \<open>for (i in obj)\<close> visits, and \<open>obj.hasOwnProperty(i)\<close>.\<close>

definition for_in_keys :: "jsobject \<Rightarrow> string list" where
  "for_in_keys obj = map fst obj"

definition hasOwnProperty :: "jsobject \<Rightarrow> string \<Rightarrow> bool" where
  "hasOwnProperty obj k = (k \<in> set (map fst obj))"

subsection \<open>Canonicalizer: \<open>stringifyToOKCoinFormat\<close>\<close>

text \<open>
  The second loop of the function, \<open>for (i = 0; i < arr.length; i++)\<close>, with the string
  built so far as accumulator.
\<close>

function format_loop :: "jsobject \<Rightarrow> string list \<Rightarrow> nat \<Rightarrow> string \<Rightarrow> string" where
  "format_loop obj arr i formattedObject =
     (if i < length arr then
        format_loop obj arr (i + 1)
          ((if i \<noteq> 0 then formattedObject @ ''&'' else formattedObject)
             @ arr ! i @ ''='' @ ToString (js_get obj (arr ! i)))
      else formattedObject)"
  by pat_completeness auto
termination
  by (relation "measure (\<lambda>(obj, arr, i, acc). length arr - i)") auto

definition stringifyToOKCoinFormat :: "jsobject \<Rightarrow> string" where
  "stringifyToOKCoinFormat obj =
     (let arr = filter (hasOwnProperty obj) (for_in_keys obj);
          arr = sort arr
      in format_loop obj arr 0 [])"

subsection \<open>Client configuration: the constructor \<open>OKCoin\<close>\<close>

text \<open>
  \<open>_.defaults(object, source)\<close> of lodash, following its documentation: every property
  of \<open>source\<close> is assigned to \<open>object\<close> where the property of \<open>object\<close> resolves to
  \<open>undefined\<close>; \<open>object\<close> is returned.
\<close>

fun defaults :: "jsobject \<Rightarrow> jsobject \<Rightarrow> jsobject" where
  "defaults object [] = object"
| "defaults object ((k, v) # source) =
     defaults (if js_get object k = JUndefined then js_set object k v else object) source"

text \<open>
  \<open>var config = _.defaults(settings || {}, {url: ..., version: ..., api_key: api_key,
  secret: secret})\<close>. The settings argument is an object or is left out (\<open>None\<close>).
\<close>

definition OKCoin :: "jsval \<Rightarrow> jsval \<Rightarrow> jsobject option \<Rightarrow> jsobject" where
  "OKCoin api_key secret settings =
     defaults (case settings of None \<Rightarrow> [] | Some s \<Rightarrow> s)
       [(''url'', JStr ''https://www.okcoin.cn/api''),
        (''version'', JStr ''v1''),
        (''api_key'', api_key),
        (''secret'', secret)]"

subsection \<open>Signer and request builder\<close>

text \<open>\<open>s.toUpperCase()\<close> on the ASCII letters of a hexadecimal digest.\<close>

definition upper_char :: "char \<Rightarrow> char" where
  "upper_char c =
     (case map_of (zip ''abcdefghijklmnopqrstuvwxyz'' ''ABCDEFGHIJKLMNOPQRSTUVWXYZ'') c of
        None \<Rightarrow> c
      | Some u \<Rightarrow> u)"

definition toUpperCase :: "string \<Rightarrow> string" where
  "toUpperCase s = map upper_char s"

text \<open>
  The digest primitive \<open>md5\<close> (the npm package, string to lower-case hexadecimal string)
  is an external collaborator: every function that signs takes it as its first argument.
\<close>

definition getMessageSignature :: "(string \<Rightarrow> string) \<Rightarrow> jsobject \<Rightarrow> jsobject \<Rightarrow> string" where
  "getMessageSignature md5 config params =
     toUpperCase (md5 (stringifyToOKCoinFormat params @ ''&secret_key=''
                         @ ToString (js_get config ''secret'')))"

text \<open>The options handed to the transport by \<open>okcoinRequest\<close>: what goes on the wire.\<close>

record request =
  url :: string
  request_method :: string
  form :: "jsobject option"

definition okcoinRequest :: "string \<Rightarrow> string \<Rightarrow> jsobject option \<Rightarrow> request" where
  "okcoinRequest u requestType params = \<lparr>url = u, request_method = requestType, form = params\<rparr>"

definition publicMethod :: "jsobject \<Rightarrow> string \<Rightarrow> request" where
  "publicMethod config path =
     (let params = None;
          u = ToString (js_get config ''url'') @ path
      in okcoinRequest u ''GET'' params)"

definition privateMethod :: "(string \<Rightarrow> string) \<Rightarrow> jsobject \<Rightarrow> string \<Rightarrow> jsobject \<Rightarrow> request" where
  "privateMethod md5 config path params =
     (let u = ToString (js_get config ''url'') @ path;
          params = js_set params ''api_key'' (js_get config ''api_key'');
          params = js_set params ''sign'' (JStr (getMessageSignature md5 config params))
      in okcoinRequest u ''POST'' (Some params))"

subsection \<open>Endpoints\<close>

definition api_path :: "jsobject \<Rightarrow> string \<Rightarrow> string" where
  "api_path config name = ''/'' @ ToString (js_get config ''version'') @ ''/'' @ name @ ''.do''"

definition ticker :: "jsobject \<Rightarrow> request" where
  "ticker config = publicMethod config (api_path config ''ticker'')"

definition depth :: "jsobject \<Rightarrow> request" where
  "depth config = publicMethod config (api_path config ''depth'')"

definition trades :: "jsobject \<Rightarrow> request" where
  "trades config = publicMethod config (api_path config ''trades'')"

definition userinfo :: "(string \<Rightarrow> string) \<Rightarrow> jsobject \<Rightarrow> request" where
  "userinfo md5 config = privateMethod md5 config (api_path config ''userinfo'') []"

text \<open>The ParameterSet \<open>trade\<close> builds before it calls \<open>privateMethod\<close>.\<close>

definition trade_params :: "jsval \<Rightarrow> jsval \<Rightarrow> jsval \<Rightarrow> jsval \<Rightarrow> jsobject" where
  "trade_params symbol type price amount =
     (let params = [];
          params = (if truthy amount then js_set params ''amount'' amount else params);
          params = (if truthy price then js_set params ''price'' price else params);
          params = js_set params ''symbol'' symbol;
          params = js_set params ''type'' type
      in params)"

definition trade :: "(string \<Rightarrow> string) \<Rightarrow> jsobject \<Rightarrow> jsval \<Rightarrow> jsval \<Rightarrow> jsval \<Rightarrow> jsval \<Rightarrow> request" where
  "trade md5 config symbol type price amount =
     privateMethod md5 config (api_path config ''trade'') (trade_params symbol type price amount)"

definition cancel_order :: "(string \<Rightarrow> string) \<Rightarrow> jsobject \<Rightarrow> jsval \<Rightarrow> jsval \<Rightarrow> request" where
  "cancel_order md5 config order_id symbol =
     privateMethod md5 config (api_path config ''cancel_order'')
       [(''order_id'', order_id), (''symbol'', symbol)]"

definition order_info :: "(string \<Rightarrow> string) \<Rightarrow> jsobject \<Rightarrow> jsval \<Rightarrow> jsval \<Rightarrow> request" where
  "order_info md5 config order_id symbol =
     privateMethod md5 config (api_path config ''order_info'')
       [(''order_id'', order_id), (''symbol'', symbol)]"

text \<open>
  \<open>orders_info\<close>: an array argument (\<open>Array.isArray(orders_id)\<close>) is replaced by
  \<open>orders_id.join(",")\<close>, any other value is passed on as it is.
\<close>

definition orders_info_params :: "jsval \<Rightarrow> jsval \<Rightarrow> jsobject" where
  "orders_info_params orders_id symbol =
     (let orders_id =
            (case orders_id of JArr xs \<Rightarrow> JStr (array_join xs '','') | v \<Rightarrow> v)
      in [(''order_id'', orders_id), (''symbol'', symbol)])"

definition orders_info :: "(string \<Rightarrow> string) \<Rightarrow> jsobject \<Rightarrow> jsval \<Rightarrow> jsval \<Rightarrow> request" where
  "orders_info md5 config orders_id symbol =
     privateMethod md5 config (api_path config ''orders_info'')
       (orders_info_params orders_id symbol)"

definition order_history ::
  "(string \<Rightarrow> string) \<Rightarrow> jsobject \<Rightarrow> jsval \<Rightarrow> jsval \<Rightarrow> jsval \<Rightarrow> jsval \<Rightarrow> request" where
  "order_history md5 config symbol status page pagesize =
     privateMethod md5 config (api_path config ''order_history'')
       [(''current_page'', page), (''symbol'', symbol), (''status'', status),
        (''page_length'', pagesize)]"

subsection \<open>Response classifier\<close>

text \<open>The table \<open>error_codes\<close>; its keys are the decimal numerals of the codes.\<close>

definition error_codes :: "(string \<times> string) list" where
  "error_codes =
    [(''10000'', ''Required parameter can not be null''),
     (''10001'', ''Requests are too frequent''),
     (''10002'', ''System Error''),
     (''10003'', ''Restricted list request, please try again later''),
     (''10004'', ''IP restriction''),
     (''10005'', ''Key does not exist''),
     (''10006'', ''User does not exist''),
     (''10007'', ''Signatures do not match''),
     (''10008'', ''Illegal parameter''),
     (''10009'', ''Order does not exist''),
     (''10010'', ''Insufficient balance''),
     (''10011'', ''Order is less than minimum trade amount''),
     (''10012'', ''Unsupported symbol (not btc_cny or ltc_cny)''),
     (''10013'', ''This interface only accepts https requests''),
     (''10014'', ''Order price must be between 0 and 1,000,000''),
     (''10015'', ''Order price differs from current market price too much''),
     (''10016'', ''Insufficient coins balance''),
     (''10017'', ''API authorization error''),
     (''10026'', ''Loan (including reserved loan) and margin cannot be withdrawn''),
     (''10027'', ''Cannot withdraw within 24 hrs of authentication information modification''),
     (''10028'', ''Withdrawal amount exceeds daily limit''),
     (''10029'', ''Account has unpaid loan, please cancel/pay off the loan before withdraw''),
     (''10031'', ''Deposits can only be withdrawn after 6 confirmations''),
     (''10032'', ''Please enabled phone/google authenticator''),
     (''10033'', ''Fee higher than maximum network transaction fee''),
     (''10034'', ''Fee lower than minimum network transaction fee''),
     (''10035'', ''Insufficient BTC/LTC''),
     (''10036'', ''Withdrawal amount too low''),
     (''10037'', ''Trade password not set''),
     (''10040'', ''Withdrawal cancellation fails''),
     (''10041'', ''Withdrawal address not approved''),
     (''10042'', ''Admin password error''),
     (''10100'', ''User account frozen''),
     (''10216'', ''Non-available API''),
     (''503'', ''Too many requests (Http)'')]"

text \<open>
  An exception that leaves the response handler: nothing catches it, and no call of the
  callback follows.
\<close>

datatype js_exception = TypeError

text \<open>The results of a list of conversions, or the first exception among them.\<close>

fun collect :: "('e + 'a) list \<Rightarrow> 'e + 'a list" where
  "collect [] = Inr []"
| "collect (Inl exn # rs) = Inl exn"
| "collect (Inr a # rs) = (case collect rs of Inl exn \<Rightarrow> Inl exn | Inr as \<Rightarrow> Inr (a # as))"

text \<open>
  The conversion of a value to a property key, \<open>obj[v]\<close>, and to the string that
  \<open>'...' + v\<close> appends: ToPrimitive, then ToString. For an object it calls the object's
  \<open>toString\<close>, then its \<open>valueOf\<close>. In a parsed payload an own \<open>toString\<close> or \<open>valueOf\<close> is
  never a function, and the inherited \<open>valueOf\<close> returns the object itself: so an object
  with a \<open>toString\<close> property of its own has no primitive value and the conversion throws a
  TypeError, and every other object gives \<open>[object Object]\<close>. An array converts its
  elements in turn and joins them.
\<close>

fun ToPropertyKey :: "jsval \<Rightarrow> js_exception + string" where
  "ToPropertyKey (JObj ps) =
     (if hasOwnProperty ps ''toString'' then Inl TypeError else Inr ''[object Object]'')"
| "ToPropertyKey (JArr xs) =
     (case collect
             (map (\<lambda>x. if x = JNull \<or> x = JUndefined then Inr [] else ToPropertyKey x) xs) of
        Inl exn \<Rightarrow> Inl exn
      | Inr ss \<Rightarrow> Inr (join_strings '','' ss))"
| "ToPropertyKey v = Inr (ToString v)"

text \<open>
  What the object literal \<open>error_codes\<close> inherits from \<open>Object.prototype\<close>: its methods,
  and under \<open>__proto__\<close> the prototype itself, an object with no enumerable property.
\<close>

definition object_prototype :: "(string \<times> jsval) list" where
  "object_prototype =
    [(''constructor'', JFunction ''Object''),
     (''__defineGetter__'', JFunction ''__defineGetter__''),
     (''__defineSetter__'', JFunction ''__defineSetter__''),
     (''hasOwnProperty'', JFunction ''hasOwnProperty''),
     (''__lookupGetter__'', JFunction ''__lookupGetter__''),
     (''__lookupSetter__'', JFunction ''__lookupSetter__''),
     (''isPrototypeOf'', JFunction ''isPrototypeOf''),
     (''propertyIsEnumerable'', JFunction ''propertyIsEnumerable''),
     (''toString'', JFunction ''toString''),
     (''valueOf'', JFunction ''valueOf''),
     (''__proto__'', JObj []),
     (''toLocaleString'', JFunction ''toLocaleString'')]"

text \<open>
  \<open>error_codes[error_code]\<close>: the code is converted to a property key, which can throw;
  the key is looked up among the entries of the table, then among the inherited members.
\<close>

definition error_codes_get :: "jsval \<Rightarrow> js_exception + jsval" where
  "error_codes_get error_code =
     (case ToPropertyKey error_code of
        Inl exn \<Rightarrow> Inl exn
      | Inr key \<Rightarrow>
          Inr (case map_of error_codes key of
                 Some m \<Rightarrow> JStr m
               | None \<Rightarrow>
                   (case map_of object_prototype key of
                      Some member \<Rightarrow> member
                    | None \<Rightarrow> JUndefined)))"

text \<open>
  \<open>error_code_meaning\<close>. The local \<open>msg\<close> is computed as the source computes it; the
  object returned reads the table again and does not mention \<open>msg\<close>. An exception of
  either table read or of the concatenation leaves the function.
\<close>

definition error_code_meaning :: "jsval \<Rightarrow> js_exception + jsval" where
  "error_code_meaning error_code =
     (case error_codes_get error_code of
        Inl exn \<Rightarrow> Inl exn
      | Inr found \<Rightarrow>
          (case (if truthy found then Inr found
                 else (case ToPropertyKey error_code of
                         Inl exn \<Rightarrow> Inl exn
                       | Inr s \<Rightarrow>
                           Inr (JStr (''OKCoin error code :'' @ s
                                        @ '' is not yet supported by the API'')))) of
             Inl exn \<Rightarrow> Inl exn
           | Inr msg \<Rightarrow>
               (case error_codes_get error_code of
                  Inl exn \<Rightarrow> Inl exn
                | Inr e \<Rightarrow> Inr (JObj [(''code'', error_code), (''error'', e)]))))"

text \<open>
  \<open>data.error_code\<close> on a parsed payload. Reading a property of \<open>null\<close> or \<open>undefined\<close>
  throws a TypeError; an object gives its own property; a number, string, boolean or
  array has no member of that name and gives \<open>undefined\<close>.
\<close>

fun read_error_code :: "jsval \<Rightarrow> js_exception + jsval" where
  "read_error_code JUndefined = Inl TypeError"
| "read_error_code JNull = Inl TypeError"
| "read_error_code (JObj ps) = Inr (js_get ps ''error_code'')"
| "read_error_code v = Inr JUndefined"

text \<open>
  The completion callback is the caller's: a function or some other value
  (\<open>typeof callback === 'function'\<close>). One call \<open>callback.call(self, error, data)\<close> is the
  pair of its arguments.
\<close>

datatype callback = Function | NotFunction

type_synonym callback_call = "jsval \<times> jsval"

text \<open>
  The handler \<open>okcoinRequest\<close> gives to the transport, \<open>function(error, response, body)\<close>.
  Its result is the list of calls of the callback it made, or the exception that escaped:
  the arguments of \<open>callback.call\<close> are evaluated before the call, outside the \<open>try\<close>, so
  an exception of \<open>data.error_code\<close> or of \<open>error_code_meaning\<close> leaves no call behind.
  The built-ins \<open>JSON.stringify\<close> and \<open>JSON.parse\<close> are arguments; \<open>JSON_parse\<close> gives
  \<open>None\<close> where \<open>JSON.parse\<close> throws.
\<close>

definition response_handler ::
  "(jsval \<Rightarrow> string) \<Rightarrow> (string \<Rightarrow> jsval option) \<Rightarrow> callback \<Rightarrow> jsval \<Rightarrow> string
     \<Rightarrow> js_exception + callback_call list" where
  "response_handler JSON_stringify JSON_parse cb error body =
     (if cb = Function then
        (if truthy error then
           Inr [(JError (''Error in server response: '' @ JSON_stringify error), JNull)]
         else
           (case JSON_parse body of
              None \<Rightarrow>
                Inr [(JError (''Could not understand response from server: '' @ body), JNull)]
            | Some data \<Rightarrow>
                (case read_error_code data of
                   Inl exn \<Rightarrow> Inl exn
                 | Inr error_code \<Rightarrow>
                     if truthy error_code
                     then (case error_code_meaning error_code of
                             Inl exn \<Rightarrow> Inl exn
                           | Inr e \<Rightarrow> Inr [(e, JNull)])
                     else Inr [(JNull, data)])))
      else Inr [])"

subsection \<open>Specification-level notions\<close>

text \<open>
  The canonical string as the specification words it: the keys in ascending order, each
  written \<open>key=value\<close> with the value's string, the pairs joined by \<open>&\<close>.
\<close>

definition key_value :: "jsobject \<Rightarrow> string \<Rightarrow> string" where
  "key_value obj k = k @ ''='' @ ToString (js_get obj k)"

definition canonical_string :: "jsobject \<Rightarrow> string" where
  "canonical_string obj = join_strings ''&'' (map (key_value obj) (sort (map fst obj)))"

text \<open>
  A request is signed as the specification asks when its form is a ParameterSet \<open>ps\<close>
  followed by the property \<open>sign\<close>, where \<open>ps\<close> has no \<open>sign\<close> of its own, carries the
  configured \<open>api_key\<close>, and \<open>sign\<close> is the upper-cased digest of the canonical string of
  \<open>ps\<close> followed by \<open>&secret_key=\<close> and the secret.
\<close>

definition signed_with :: "(string \<Rightarrow> string) \<Rightarrow> jsobject \<Rightarrow> request \<Rightarrow> bool" where
  "signed_with md5 config req =
     (case form req of
        None \<Rightarrow> False
      | Some f \<Rightarrow>
          f \<noteq> [] \<and>
          last f = (''sign'', JStr (toUpperCase (md5 (canonical_string (butlast f)
                       @ ''&secret_key='' @ ToString (js_get config ''secret''))))) \<and>
          \<not> hasOwnProperty (butlast f) ''sign'' \<and>
          map_of (butlast f) ''api_key'' = Some (js_get config ''api_key''))"


text \<open>
  An error code that has a string: it is not an object with a \<open>toString\<close> property of its
  own, and as an array it holds no such object among its elements, nested arrays included.
\<close>

fun key_convertible :: "jsval \<Rightarrow> bool" where
  "key_convertible (JObj ps) = (\<not> hasOwnProperty ps ''toString'')"
| "key_convertible (JArr xs) =
     list_all (\<lambda>x. x = JNull \<or> x = JUndefined \<or> key_convertible x) xs"
| "key_convertible v = True"

text \<open>
  \<open>JSON.parse\<close> and \<open>JSON.stringify\<close> on the handful of texts and values the examples
  below use; \<open>JSON.parse\<close> throws on every other body used there.
\<close>

definition JSON_parse_sample :: "string \<Rightarrow> jsval option" where
  \<open>JSON_parse_sample =
     map_of
       [(''null'', JNull),
        (''{"error_code": 99999}'', JObj [(''error_code'', JNum 99999)]),
        (''{"error_code": 10007}'', JObj [(''error_code'', JNum 10007)]),
        (''{"error_code": "toString"}'', JObj [(''error_code'', JStr ''toString'')]),
        (''{"error_code": {"toString": 1}}'',
           JObj [(''error_code'', JObj [(''toString'', JNum 1)])]),
        (''{"result": true}'', JObj [(''result'', JBool True)])]\<close>

definition JSON_stringify_sample :: "jsval \<Rightarrow> string" where
  \<open>JSON_stringify_sample v =
     (if v = JObj [(''code'', JStr ''ECONNREFUSED'')] then ''{"code":"ECONNREFUSED"}''
      else ''{}'')\<close>

section \<open>Properties\<close>

declare format_loop.simps [simp del]
declare digits.simps [simp del]

subsection \<open>Canonicalizer\<close>

lemma join_strings_Cons:
  "join_strings sep (s # ss) = s @ (if ss = [] then [] else sep @ join_strings sep ss)"
  by (cases ss) simp_all

text \<open>The loop from index \<open>i\<close> on appends the join of the remaining pairs.\<close>

lemma format_loop_join:
  "i \<le> length arr \<Longrightarrow>
   format_loop obj arr i acc =
     (if i < length arr
      then (if i \<noteq> 0 then acc @ ''&'' else acc)
             @ join_strings ''&'' (map (key_value obj) (drop i arr))
      else acc)"
proof (induction obj arr i acc rule: format_loop.induct)
  case (1 obj arr i acc)
  show ?case
  proof (cases "i < length arr")
    case False
    then show ?thesis by (simp add: format_loop.simps)
  next
    case True
    let ?acc = "(if i \<noteq> 0 then acc @ ''&'' else acc)
                  @ arr ! i @ ''='' @ ToString (js_get obj (arr ! i))"
    have step: "format_loop obj arr i acc = format_loop obj arr (i + 1) ?acc"
      using True by (subst format_loop.simps) simp
    have ih: "format_loop obj arr (i + 1) ?acc =
       (if i + 1 < length arr
        then ?acc @ ''&'' @ join_strings ''&'' (map (key_value obj) (drop (i + 1) arr))
        else ?acc)"
      using "1.IH" [OF True] True by simp
    have dr: "drop i arr = arr ! i # drop (i + 1) arr"
      using True by (simp add: Cons_nth_drop_Suc)
    show ?thesis
      unfolding step ih using True
      by (auto simp add: dr join_strings_Cons key_value_def)
  qed
qed

lemma own_keys: "filter (hasOwnProperty obj) (for_in_keys obj) = map fst obj"
  by (simp add: hasOwnProperty_def for_in_keys_def)

lemma stringify_canonical: "stringifyToOKCoinFormat obj = canonical_string obj"
proof (cases "obj = []")
  case True
  then show ?thesis
    by (simp add: stringifyToOKCoinFormat_def canonical_string_def own_keys format_loop.simps)
next
  case False
  then have "0 < length (sort (map fst obj))" by simp
  then show ?thesis
    by (simp add: stringifyToOKCoinFormat_def canonical_string_def own_keys
        format_loop_join Let_def)
qed

text \<open>
  C3. For every ParameterSet the canonical string is the \<open>key=value\<close> pairs, values by
  their plain string with no escaping, joined by \<open>&\<close> with no separator before the first
  or after the last, over all the keys sorted in ascending lexicographic order; for the
  empty ParameterSet it is the empty string.
\<close>

theorem stringifyToOKCoinFormat_canonical:
  "stringifyToOKCoinFormat obj
     = join_strings ''&'' (map (\<lambda>k. k @ ''='' @ ToString (js_get obj k)) (sort (map fst obj)))
   \<and> stringifyToOKCoinFormat obj = canonical_string obj
   \<and> sorted (sort (map fst obj))
   \<and> set (sort (map fst obj)) = fst ` set obj
   \<and> length (sort (map fst obj)) = length obj
   \<and> stringifyToOKCoinFormat [] = []"
proof -
  have "canonical_string obj
      = join_strings ''&'' (map (\<lambda>k. k @ ''='' @ ToString (js_get obj k)) (sort (map fst obj)))"
    by (simp add: canonical_string_def key_value_def [abs_def])
  moreover have "canonical_string [] = []"
    by (simp add: canonical_string_def)
  ultimately show ?thesis
    by (simp add: stringify_canonical)
qed

text \<open>An example: keys out of order, a number, and a value holding the separators.\<close>

lemma stringifyToOKCoinFormat_example:
  "stringifyToOKCoinFormat
     [(''symbol'', JStr ''btc_cny''), (''api_key'', JStr ''a&b=c''), (''amount'', JNum 12)]
   = ''amount=12&api_key=a&b=c&symbol=btc_cny''"
  by (simp add: stringify_canonical canonical_string_def key_value_def js_get_def
      number_to_string_def digits.simps digit_char_def)

subsection \<open>Order independence\<close>

lemma sort_keys_eq:
  assumes "wf_object p" "wf_object q" "set p = set q"
  shows "sort (map fst p) = sort (map fst q)"
proof -
  have "set (map fst p) = set (map fst q)" using assms(3) by simp
  then have "sorted_list_of_set (set (map fst p)) = sorted_list_of_set (set (map fst q))"
    by (rule arg_cong)
  then have "sort (remdups (map fst p)) = sort (remdups (map fst q))"
    by (simp only: sorted_list_of_set_sort_remdups)
  then show ?thesis
    using assms(1,2) by (simp add: wf_object_def distinct_remdups_id)
qed

lemma canonical_perm:
  assumes "wf_object p" "wf_object q" "set p = set q"
  shows "canonical_string p = canonical_string q"
proof -
  have "map_of p = map_of q"
    using assms by (simp add: wf_object_def map_of_inject_set)
  then have "key_value p = key_value q"
    by (simp add: key_value_def js_get_def fun_eq_iff)
  then show ?thesis
    by (simp add: canonical_string_def sort_keys_eq [OF assms])
qed

text \<open>
  C8. Two ParameterSets holding the same key-value pairs, inserted in any order, have the
  same canonical string, and so the same signature under the same secret.
\<close>

theorem canonical_order_independent:
  assumes "wf_object p" and "wf_object q" and "set p = set q"
  shows "stringifyToOKCoinFormat p = stringifyToOKCoinFormat q
       \<and> getMessageSignature md5 config p = getMessageSignature md5 config q"
  using canonical_perm [OF assms]
  by (simp add: stringify_canonical getMessageSignature_def)

theorem canonical_order_independent_witness:
  "wf_object [(''symbol'', JStr ''btc_cny''), (''api_key'', JStr ''K'')]
   \<and> wf_object [(''api_key'', JStr ''K''), (''symbol'', JStr ''btc_cny'')]
   \<and> set [(''symbol'', JStr ''btc_cny''), (''api_key'', JStr ''K'')]
       = set [(''api_key'', JStr ''K''), (''symbol'', JStr ''btc_cny'')]
   \<and> stringifyToOKCoinFormat [(''symbol'', JStr ''btc_cny''), (''api_key'', JStr ''K'')]
       = stringifyToOKCoinFormat [(''api_key'', JStr ''K''), (''symbol'', JStr ''btc_cny'')]
   \<and> getMessageSignature rev [(''secret'', JStr ''S'')]
         [(''symbol'', JStr ''btc_cny''), (''api_key'', JStr ''K'')]
       = getMessageSignature rev [(''secret'', JStr ''S'')]
         [(''api_key'', JStr ''K''), (''symbol'', JStr ''btc_cny'')]"
proof -
  have a: "wf_object [(''symbol'', JStr ''btc_cny''), (''api_key'', JStr ''K'')]"
    by (simp add: wf_object_def)
  have b: "wf_object [(''api_key'', JStr ''K''), (''symbol'', JStr ''btc_cny'')]"
    by (simp add: wf_object_def)
  have c: "set [(''symbol'', JStr ''btc_cny''), (''api_key'', JStr ''K'')]
         = set [(''api_key'', JStr ''K''), (''symbol'', JStr ''btc_cny'')]"
    by auto
  show ?thesis
    using a b c canonical_order_independent [OF a b c, of rev "[(''secret'', JStr ''S'')]"]
    by simp
qed

subsection \<open>Signing\<close>

lemma update_fresh: "k \<notin> fst ` set al \<Longrightarrow> AList.update k v al = al @ [(k, v)]"
  by (induction al) auto

lemma keys_js_set: "fst ` set (js_set obj k v) = insert k (fst ` set obj)"
  by (simp add: js_set_def dom_update)

lemma privateMethod_form:
  "form (privateMethod md5 config path params) =
     Some (js_set (js_set params ''api_key'' (js_get config ''api_key'')) ''sign''
       (JStr (getMessageSignature md5 config
                (js_set params ''api_key'' (js_get config ''api_key'')))))"
  by (simp add: privateMethod_def okcoinRequest_def Let_def)

text \<open>
  Whatever ParameterSet without a \<open>sign\<close> key \<open>privateMethod\<close> is given, the request it
  sends is signed over that set with \<open>api_key\<close> added.
\<close>

lemma privateMethod_signed:
  assumes "\<not> hasOwnProperty params ''sign''"
  shows "signed_with md5 config (privateMethod md5 config path params)"
proof -
  let ?ps = "js_set params ''api_key'' (js_get config ''api_key'')"
  have fresh: "''sign'' \<notin> fst ` set ?ps"
    using assms by (simp add: keys_js_set hasOwnProperty_def)
  have f: "form (privateMethod md5 config path params) =
      Some (?ps @ [(''sign'', JStr (getMessageSignature md5 config ?ps))])"
    by (simp add: privateMethod_form js_set_def update_fresh [OF fresh [unfolded js_set_def]])
  have k: "map_of ?ps ''api_key'' = Some (js_get config ''api_key'')"
    by (simp add: js_set_def update_conv')
  show ?thesis
    using fresh k
    by (simp add: signed_with_def f getMessageSignature_def stringify_canonical
        hasOwnProperty_def)
qed

lemma trade_params_keys:
  "fst ` set (trade_params symbol type price amount) =
     {''symbol'', ''type''} \<union> (if truthy amount then {''amount''} else {})
       \<union> (if truthy price then {''price''} else {})"
  by (auto simp add: trade_params_def Let_def keys_js_set)

text \<open>
  C2. For each of the six private endpoints, the form that is sent is a ParameterSet
  carrying \<open>api_key\<close> and no \<open>sign\<close>, followed by \<open>sign\<close>, whose value is the upper-cased
  digest of that ParameterSet's canonical string followed by \<open>&secret_key=\<close> and the
  secret: the signature is computed once \<open>api_key\<close> is set and before \<open>sign\<close> is added.
\<close>

theorem private_requests_signed:
  "signed_with md5 config (userinfo md5 config) \<and>
   signed_with md5 config (trade md5 config symbol type price amount) \<and>
   signed_with md5 config (cancel_order md5 config order_id symbol) \<and>
   signed_with md5 config (order_info md5 config order_id symbol) \<and>
   signed_with md5 config (orders_info md5 config orders_id symbol) \<and>
   signed_with md5 config (order_history md5 config symbol status page pagesize)"
  by (simp add: userinfo_def trade_def cancel_order_def order_info_def orders_info_def
      order_history_def privateMethod_signed hasOwnProperty_def trade_params_keys
      orders_info_params_def Let_def)

text \<open>An example, with list reversal standing in for the digest.\<close>

lemma cancel_order_example:
  "form (cancel_order rev [(''api_key'', JStr ''k''), (''secret'', JStr ''s'')]
           (JNum 7) (JStr ''ltc_cny''))
   = Some [(''order_id'', JNum 7), (''symbol'', JStr ''ltc_cny''), (''api_key'', JStr ''k''),
           (''sign'', JStr ''S=YEK_TERCES&YNC_CTL=LOBMYS&7=DI_REDRO&K=YEK_IPA'')]"
  by (simp add: cancel_order_def privateMethod_form js_set_def js_get_def
      getMessageSignature_def stringify_canonical canonical_string_def key_value_def
      number_to_string_def digits.simps digit_char_def toUpperCase_def upper_char_def)

subsection \<open>Endpoints\<close>

lemma privateMethod_get:
  "k \<noteq> ''api_key'' \<Longrightarrow> k \<noteq> ''sign'' \<Longrightarrow>
   map_option (\<lambda>f. map_of f k) (form (privateMethod md5 config path params))
     = Some (map_of params k)"
  by (simp add: privateMethod_form js_set_def update_conv')

text \<open>
  C6. For every list of identifiers, the form \<open>orders_info\<close> sends when called with the
  list and the form it sends when called with the comma-joined string of the identifiers
  both hold the key \<open>order_id\<close>, with the same value, the joined string (indeed the two
  requests are the same); for identifiers that are strings the joined string is the
  identifiers with a comma between neighbours.
\<close>

theorem orders_info_list_eq_joined:
  "(\<exists>f g. form (orders_info md5 config (JArr ids) symbol) = Some f
        \<and> form (orders_info md5 config (JStr (array_join ids '','')) symbol) = Some g
        \<and> map_of f ''order_id'' = Some (JStr (array_join ids '',''))
        \<and> map_of g ''order_id'' = Some (JStr (array_join ids '',''))
        \<and> f = g)
   \<and> orders_info md5 config (JArr ids) symbol
     = orders_info md5 config (JStr (array_join ids '','')) symbol
   \<and> js_get (orders_info_params (JArr ids) symbol) ''order_id''
     = js_get (orders_info_params (JStr (array_join ids '','')) symbol) ''order_id''
   \<and> js_get (orders_info_params (JArr ids) symbol) ''order_id'' = JStr (array_join ids '','')
   \<and> array_join (map JStr ss) '','' = join_strings '','' ss"
proof -
  have join: "map (\<lambda>x. if x = JNull \<or> x = JUndefined then [] else ToString x) (map JStr ss) = ss"
    by (induction ss) simp_all
  have same: "orders_info_params (JArr ids) symbol
      = orders_info_params (JStr (array_join ids '','')) symbol"
    by (simp add: orders_info_params_def)
  have sent: "map_option (\<lambda>f. map_of f ''order_id'')
       (form (orders_info md5 config (JArr ids) symbol))
     = Some (Some (JStr (array_join ids '','')))"
    unfolding orders_info_def
    by (subst privateMethod_get) (simp_all add: orders_info_params_def)
  then obtain f where f: "form (orders_info md5 config (JArr ids) symbol) = Some f"
    and v: "map_of f ''order_id'' = Some (JStr (array_join ids '',''))"
    by (cases "form (orders_info md5 config (JArr ids) symbol)") auto
  have eq: "orders_info md5 config (JArr ids) symbol
      = orders_info md5 config (JStr (array_join ids '','')) symbol"
    by (simp add: orders_info_def same)
  have forms: "\<exists>f g. form (orders_info md5 config (JArr ids) symbol) = Some f
        \<and> form (orders_info md5 config (JStr (array_join ids '','')) symbol) = Some g
        \<and> map_of f ''order_id'' = Some (JStr (array_join ids '',''))
        \<and> map_of g ''order_id'' = Some (JStr (array_join ids '',''))
        \<and> f = g"
    using f v eq by auto
  show ?thesis
    using forms eq join
    by (simp add: orders_info_params_def js_get_def array_join_def)
qed

lemma orders_info_example:
  "orders_info_params (JArr [JStr ''1'', JStr ''2'', JStr ''3'']) (JStr ''btc_cny'')
     = [(''order_id'', JStr ''1,2,3''), (''symbol'', JStr ''btc_cny'')]
   \<and> orders_info_params (JStr ''1,2,3'') (JStr ''btc_cny'')
     = [(''order_id'', JStr ''1,2,3''), (''symbol'', JStr ''btc_cny'')]
   \<and> map_option (\<lambda>f. map_of f ''order_id'')
         (form (orders_info md5 config (JArr [JStr ''1'', JStr ''2'', JStr ''3''])
                  (JStr ''btc_cny'')))
     = Some (Some (JStr ''1,2,3''))
   \<and> map_option (\<lambda>f. map_of f ''order_id'')
         (form (orders_info md5 config (JStr ''1,2,3'') (JStr ''btc_cny'')))
     = Some (Some (JStr ''1,2,3''))"
  by (simp add: orders_info_def privateMethod_get orders_info_params_def array_join_def)

text \<open>
  C7. In the ParameterSet \<open>trade\<close> sends, \<open>amount\<close> is a key exactly when the amount
  argument is truthy, \<open>price\<close> is a key exactly when the price argument is truthy, and
  \<open>symbol\<close> and \<open>type\<close> are always keys.
\<close>

theorem trade_optional_keys:
  "\<exists>f. form (trade md5 config symbol type price amount) = Some f
     \<and> hasOwnProperty f ''amount'' = truthy amount
     \<and> hasOwnProperty f ''price'' = truthy price
     \<and> hasOwnProperty f ''symbol''
     \<and> hasOwnProperty f ''type''"
  by (simp add: trade_def privateMethod_form hasOwnProperty_def keys_js_set trade_params_keys)

lemma trade_example:
  "trade_params (JStr ''btc_cny'') (JStr ''buy'') (JNum 100) JNull
     = [(''price'', JNum 100), (''symbol'', JStr ''btc_cny''), (''type'', JStr ''buy'')]"
  by (simp add: trade_params_def js_set_def)

subsection \<open>Configuration\<close>

lemma js_get_js_set: "js_get (js_set obj k v) k' = (if k' = k then v else js_get obj k')"
  by (simp add: js_get_def js_set_def update_conv')

lemma defaults_keeps:
  "js_get object k \<noteq> JUndefined \<Longrightarrow> js_get (defaults object source) k = js_get object k"
proof (induction object source rule: defaults.induct)
  case (1 object)
  then show ?case by simp
next
  case (2 object k' v source)
  show ?case
  proof (cases "js_get object k' = JUndefined")
    case True
    then have "k' \<noteq> k" using "2.prems" by auto
    then have "js_get (js_set object k' v) k = js_get object k"
      by (simp add: js_get_js_set)
    then show ?thesis using 2 True by simp
  next
    case False
    then show ?thesis using 2 by simp
  qed
qed

text \<open>
  C10, as the code has it. A key whose value in the settings object is not \<open>undefined\<close>
  keeps that value in the configuration, whatever the built-in defaults and the positional
  \<open>api_key\<close> and \<open>secret\<close> are; every signed request then carries the settings'
  \<open>api_key\<close> and is signed with the settings' \<open>secret\<close>.
\<close>

theorem settings_take_precedence:
  assumes "js_get settings k \<noteq> JUndefined"
  shows "js_get (OKCoin api_key secret (Some settings)) k = js_get settings k
       \<and> (k = ''api_key'' \<longrightarrow>
            map_option (\<lambda>f. js_get f ''api_key'')
              (form (privateMethod md5 (OKCoin api_key secret (Some settings)) path params))
            = Some (js_get settings ''api_key''))
       \<and> (k = ''secret'' \<longrightarrow>
            getMessageSignature md5 (OKCoin api_key secret (Some settings)) params
            = toUpperCase (md5 (stringifyToOKCoinFormat params @ ''&secret_key=''
                                  @ ToString (js_get settings ''secret''))))"
proof -
  have cfg: "js_get (OKCoin api_key secret (Some settings)) k = js_get settings k"
    by (simp only: OKCoin_def option.case defaults_keeps [OF assms])
  show ?thesis
    using cfg by (auto simp add: privateMethod_form js_get_js_set getMessageSignature_def)
qed

theorem settings_take_precedence_witness:
  "js_get [(''secret'', JStr ''t'')] ''secret'' \<noteq> JUndefined
   \<and> js_get (OKCoin (JStr ''K'') (JStr ''S'') (Some [(''secret'', JStr ''t'')])) ''secret''
       = JStr ''t''
   \<and> getMessageSignature rev (OKCoin (JStr ''K'') (JStr ''S'') (Some [(''secret'', JStr ''t'')])) []
       = ''T=YEK_TERCES&''"
proof -
  have h: "js_get [(''secret'', JStr ''t'')] ''secret'' \<noteq> JUndefined"
    by (simp add: js_get_def)
  show ?thesis
    using h settings_take_precedence [OF h, of "JStr ''K''" "JStr ''S''" rev "[]" "[]"]
    by (simp add: js_get_def stringify_canonical canonical_string_def toUpperCase_def
        upper_char_def)
qed

text \<open>
  The claim as worded fails where a key is present with the value \<open>undefined\<close>: the
  settings object has an \<open>api_key\<close> property, and the configuration takes the positional
  argument.
\<close>

theorem settings_undefined_counterexample:
  "hasOwnProperty [(''api_key'', JUndefined)] ''api_key''
   \<and> js_get (OKCoin (JStr ''K'') (JStr ''S'') (Some [(''api_key'', JUndefined)])) ''api_key''
       = JStr ''K''
   \<and> js_get (OKCoin (JStr ''K'') (JStr ''S'') (Some [(''api_key'', JUndefined)])) ''api_key''
       \<noteq> js_get [(''api_key'', JUndefined)] ''api_key''"
  by (simp add: OKCoin_def js_get_def js_set_def hasOwnProperty_def)

subsection \<open>Response classifier\<close>



lemma collect_Inr_iff:
  "(\<exists>as. collect rs = Inr as) = list_all (\<lambda>r. \<exists>a. r = Inr a) rs"
proof (induction rs)
  case Nil
  then show ?case by simp
next
  case (Cons r rs)
  then show ?case by (cases r) (auto split: sum.splits)
qed

text \<open>The conversion returns a string exactly for the codes that have one.\<close>

lemma key_convertible_iff:
  "key_convertible v = (\<exists>s. ToPropertyKey v = Inr s)"
proof (induction v rule: ToPropertyKey.induct)
  case (1 ps)
  then show ?case by simp
next
  case (2 xs)
  let ?f = "\<lambda>x. if x = JNull \<or> x = JUndefined then Inr [] else ToPropertyKey x"
  have elem: "(x = JNull \<or> x = JUndefined \<or> key_convertible x) = (\<exists>a. ?f x = Inr a)"
    if "x \<in> set xs" for x
    using 2 [OF that] by auto
  have "(\<exists>s. ToPropertyKey (JArr xs) = Inr s) = (\<exists>ss. collect (map ?f xs) = Inr ss)"
    by (auto split: sum.splits)
  also have "\<dots> = list_all (\<lambda>x. \<exists>a. ?f x = Inr a) xs"
    by (simp only: collect_Inr_iff list.pred_map comp_def)
  also have "\<dots> = key_convertible (JArr xs)"
    using elem by (simp add: list_all_iff)
  finally show ?case by simp
qed simp_all

lemma collect_Inr: "collect rs = Inr as \<Longrightarrow> rs = map Inr as"
proof (induction rs arbitrary: as)
  case Nil
  then show ?case by simp
next
  case (Cons r rs)
  then show ?case by (cases r) (auto split: sum.splits)
qed

text \<open>Where the conversion returns, it returns the string \<open>ToString\<close> gives.\<close>

lemma ToPropertyKey_ToString: "ToPropertyKey v = Inr s \<Longrightarrow> ToString v = s"
proof (induction v arbitrary: s rule: ToPropertyKey.induct)
  case (1 ps)
  then show ?case by (simp split: if_splits)
next
  case (2 xs)
  let ?f = "\<lambda>x. if x = JNull \<or> x = JUndefined then Inr [] else ToPropertyKey x"
  let ?g = "\<lambda>x. if x = JNull \<or> x = JUndefined then [] else ToString x"
  from "2.prems" obtain ss where c: "collect (map ?f xs) = Inr ss"
    and s: "s = join_strings '','' ss"
    by (auto split: sum.splits)
  from c have m: "map ?f xs = map Inr ss" by (rule collect_Inr)
  have len: "length xs = length ss"
    using arg_cong [OF m, of length] by simp
  have "?g (xs ! i) = ss ! i" if i: "i < length xs" for i
  proof -
    have "map ?f xs ! i = map Inr ss ! i" by (simp only: m)
    with i len have e: "?f (xs ! i) = Inr (ss ! i)"
      by (simp only: nth_map)
    show ?thesis
    proof (cases "xs ! i = JNull \<or> xs ! i = JUndefined")
      case True
      with e show ?thesis by auto
    next
      case False
      with e have "ToPropertyKey (xs ! i) = Inr (ss ! i)" by simp
      with False i have "ToString (xs ! i) = ss ! i"
        using "2.IH" [of "xs ! i" "ss ! i"] by simp
      with False show ?thesis by simp
    qed
  qed
  then have "map ?g xs = ss"
    using len by (simp add: list_eq_iff_nth_eq)
  then show ?case by (simp add: s)
qed simp_all


lemma error_code_meaning_throws:
  "ToPropertyKey error_code = Inl exn \<Longrightarrow> error_code_meaning error_code = Inl exn"
  by (simp add: error_code_meaning_def error_codes_get_def)


lemma handler_unconvertible_code:
  "\<not> truthy error \<Longrightarrow> JSON_parse body = Some data \<Longrightarrow>
   read_error_code data = Inr error_code \<Longrightarrow> truthy error_code \<Longrightarrow>
   \<not> key_convertible error_code \<Longrightarrow>
   response_handler JSON_stringify JSON_parse Function error body = Inl TypeError"
proof -
  assume a: "\<not> truthy error" "JSON_parse body = Some data"
    "read_error_code data = Inr error_code" "truthy error_code"
    and n: "\<not> key_convertible error_code"
  from n have "ToPropertyKey error_code = Inl TypeError"
    by (cases "ToPropertyKey error_code") (auto simp add: key_convertible_iff, metis js_exception.exhaust)
  then have "error_code_meaning error_code = Inl TypeError"
    by (rule error_code_meaning_throws)
  with a show ?thesis by (simp add: response_handler_def)
qed


lemma handler_null_payload:
  "\<not> truthy error \<Longrightarrow> JSON_parse body = Some JNull \<Longrightarrow>
   response_handler JSON_stringify JSON_parse Function error body = Inl TypeError"
  by (simp add: response_handler_def)

lemma read_error_code_cases:
  "data \<noteq> JNull \<Longrightarrow> data \<noteq> JUndefined \<Longrightarrow> \<exists>ec. read_error_code data = Inr ec"
  by (cases data) simp_all

text \<open>
  C9. When the callback argument is not a function, the handler makes no call at all,
  whatever the transport reported and whatever the body holds, and nothing is thrown.
\<close>

theorem no_function_no_outcome:
  "response_handler JSON_stringify JSON_parse NotFunction error body = Inr []"
  by (simp add: response_handler_def)




text \<open>Examples of the three error branches and of success.\<close>

lemma handler_examples:
  \<open>response_handler JSON_stringify_sample JSON_parse_sample Function
     (JObj [(''code'', JStr ''ECONNREFUSED'')]) ''{"result": true}''
     = Inr [(JError ''Error in server response: {"code":"ECONNREFUSED"}'', JNull)]
   \<and> response_handler JSON_stringify_sample JSON_parse_sample Function JNull ''<html>''
     = Inr [(JError ''Could not understand response from server: <html>'', JNull)]
   \<and> response_handler JSON_stringify_sample JSON_parse_sample Function JNull
       ''{"error_code": 10007}''
     = Inr [(JObj [(''code'', JNum 10007), (''error'', JStr ''Signatures do not match'')],
             JNull)]
   \<and> response_handler JSON_stringify_sample JSON_parse_sample Function JNull
       ''{"result": true}''
     = Inr [(JNull, JObj [(''result'', JBool True)])]\<close>
  by (simp add: response_handler_def JSON_parse_sample_def JSON_stringify_sample_def
      js_get_def error_code_meaning_def error_codes_get_def error_codes_def
      number_to_string_def digits.simps digit_char_def)

text \<open>
  Two payloads whose code is not a number: the name of an inherited member finds that
  member in the table, and an object with a \<open>toString\<close> property of its own makes the
  table read throw, so that the callback is not called.
\<close>

lemma handler_inherited_member_example:
  \<open>response_handler JSON_stringify_sample JSON_parse_sample Function JNull
     ''{"error_code": "toString"}''
   = Inr [(JObj [(''code'', JStr ''toString''), (''error'', JFunction ''toString'')], JNull)]\<close>
  by (simp add: response_handler_def JSON_parse_sample_def js_get_def error_code_meaning_def
      error_codes_get_def error_codes_def object_prototype_def)

lemma handler_unconvertible_code_example:
  \<open>response_handler JSON_stringify_sample JSON_parse_sample Function JNull
     ''{"error_code": {"toString": 1}}'' = Inl TypeError\<close>
  by (simp add: response_handler_def JSON_parse_sample_def js_get_def error_code_meaning_def
      error_codes_get_def hasOwnProperty_def)

text \<open>
  C1 on the code. For the payload \<open>{"error_code": 99999}\<close>, a code the table does not
  hold, the callback receives the code and, as \<open>error\<close>, \<open>undefined\<close>: the message
  \<open>msg\<close> that \<open>error_code_meaning\<close> builds is not what it returns.
\<close>

theorem unknown_code_error_undefined:
  \<open>response_handler JSON_stringify_sample JSON_parse_sample Function JNull
     ''{"error_code": 99999}''
   = Inr [(JObj [(''code'', JNum 99999), (''error'', JUndefined)], JNull)]\<close>
  by (simp add: response_handler_def JSON_parse_sample_def js_get_def error_code_meaning_def
      error_codes_get_def error_codes_def object_prototype_def number_to_string_def
      digits.simps digit_char_def)

text \<open>
  C4 on the code. For the body \<open>null\<close>, which parses, the read of \<open>data.error_code\<close>
  throws: the handler calls the callback neither with an error nor with the payload.
\<close>

theorem null_body_throws:
  "response_handler JSON_stringify_sample JSON_parse_sample Function JNull ''null''
   = Inl TypeError"
  by (simp add: response_handler_def JSON_parse_sample_def)

end
